theory Spec2Isabelle
  imports Complex_Main
begin

section \<open>Numbers, vectors and the helpers of the scene code\<close>

text \<open>
  The scene code computes with JavaScript numbers. They are modelled as the reals:
  every arithmetic operation is exact, and the rounding of double arithmetic and of
  stores into a \<open>Float32Array\<close> is outside the model. \<open>Math.pow\<close>,
  \<open>Math.cos\<close>, \<open>Math.sin\<close>, \<open>Math.acos\<close>, \<open>Math.sqrt\<close> and \<open>Math.PI\<close> are
  \<open>powr\<close>, \<open>cos\<close>, \<open>sin\<close>, \<open>arccos\<close>, \<open>sqrt\<close> and \<open>pi\<close>.
\<close>

text \<open>Configuration constants of the tree component.\<close>

definition FOLIAGE_COUNT :: nat where
  "FOLIAGE_COUNT = 2200"

definition RIBBON_PARTICLE_COUNT :: nat where
  "RIBBON_PARTICLE_COUNT = 500"

definition BAUBLE_COUNT :: nat where
  "BAUBLE_COUNT = 120"

definition GIFT_COUNT :: nat where
  "GIFT_COUNT = 35"

definition COOKIE_COUNT :: nat where
  "COOKIE_COUNT = 35"

definition TREE_HEIGHT :: real where
  "TREE_HEIGHT = 9.5"

definition TREE_RADIUS :: real where
  "TREE_RADIUS = 3.8"

text \<open>
  \<open>THREE.Vector3\<close> and \<open>THREE.Euler\<close>. The fields \<open>x\<close>, \<open>y\<close>, \<open>z\<close> of the
  source are \<open>vx\<close>, \<open>vy\<close>, \<open>vz\<close> and \<open>ex\<close>, \<open>ey\<close>, \<open>ez\<close> here.
\<close>

record Vector3 =
  vx :: real
  vy :: real
  vz :: real

record Euler =
  ex :: real
  ey :: real
  ez :: real

text \<open>
  \<open>THREE.MathUtils.lerp\<close> and \<open>THREE.MathUtils.clamp\<close> as the three.js library
  defines them: \<open>(1 - t) * x + t * y\<close> and \<open>Math.max(min, Math.min(max, value))\<close>.
\<close>

definition lerp :: "real \<Rightarrow> real \<Rightarrow> real \<Rightarrow> real" where
  "lerp x y t = (1 - t) * x + t * y"

definition clamp :: "real \<Rightarrow> real \<Rightarrow> real \<Rightarrow> real" where
  "clamp v lo hi = max lo (min hi v)"

text \<open>
  \<open>Math.random()\<close>: the generator is the sequence of the values it will return, each
  call takes the first one and leaves the rest.
\<close>

type_synonym rng = "nat \<Rightarrow> real"

definition Math_random :: "rng \<Rightarrow> real \<times> rng" where
  "Math_random g = (g 0, \<lambda>n. g (Suc n))"

section \<open>MorphingSystem: the per-particle data\<close>

text \<open>What a position generator returns; \<open>rotation\<close> is optional in the source.\<close>

record GenPos =
  tree :: Vector3
  scatter :: Vector3
  scale :: real
  rotation :: "Euler option"

text \<open>The arrays built once per group by the \<open>useMemo\<close> block.\<close>

record ParticleData =
  treePositions :: "real list"
  scatterPositions :: "real list"
  scales :: "real list"
  speeds :: "real list"
  phases :: "real list"
  treeRotations :: "real list"

text \<open>\<open>new Float32Array(n)\<close>: \<open>n\<close> zeros.\<close>

definition Float32Array :: "nat \<Rightarrow> real list" where
  "Float32Array n = replicate n 0"

definition alloc_data :: "nat \<Rightarrow> ParticleData" where
  "alloc_data count =
     \<lparr>treePositions = Float32Array (count * 3),
      scatterPositions = Float32Array (count * 3),
      scales = Float32Array count,
      speeds = Float32Array count,
      phases = Float32Array count,
      treeRotations = Float32Array (count * 3)\<rparr>"

text \<open>
  The rotation stored for particle \<open>i\<close>: the generator's one when it gave one, three
  random angles otherwise.
\<close>

definition pick_rotation :: "Euler option \<Rightarrow> rng \<Rightarrow> Euler \<times> rng" where
  "pick_rotation r g =
     (case r of
        Some e \<Rightarrow> (e, g)
      | None \<Rightarrow>
          (let (a, g1) = Math_random g;
               (b, g2) = Math_random g1;
               (c, g3) = Math_random g2
           in (\<lparr>ex = a * pi, ey = b * pi, ez = c * pi\<rparr>, g3)))"

text \<open>
  One iteration of the generation loop. A write to a typed array outside its range
  is ignored, as \<open>list_update\<close> does.
\<close>

definition data_body ::
  "(nat \<Rightarrow> rng \<Rightarrow> GenPos \<times> rng) \<Rightarrow> real \<Rightarrow> nat \<Rightarrow> ParticleData \<times> rng \<Rightarrow> ParticleData \<times> rng" where
  "data_body generatePositions baseScale i st =
     (let (d, g0) = st;
          (pos, g1) = generatePositions i g0;
          tp = (treePositions d)
                 [i * 3 := vx (tree pos), i * 3 + 1 := vy (tree pos), i * 3 + 2 := vz (tree pos)];
          sp = (scatterPositions d)
                 [i * 3 := vx (scatter pos), i * 3 + 1 := vy (scatter pos),
                  i * 3 + 2 := vz (scatter pos)];
          (rot, g2) = pick_rotation (rotation pos) g1;
          tr = (treeRotations d)
                 [i * 3 := ex rot, i * 3 + 1 := ey rot, i * 3 + 2 := ez rot];
          sc = (scales d)[i := scale pos * baseScale];
          (u, g3) = Math_random g2;
          sd = (speeds d)[i := 0.5 + u * 0.5];
          (v, g4) = Math_random g3;
          ph = (phases d)[i := v * pi * 2]
      in (\<lparr>treePositions = tp, scatterPositions = sp, scales = sc, speeds = sd,
            phases = ph, treeRotations = tr\<rparr>, g4))"

text \<open>\<open>for (let i = 0; i < count; i++)\<close>, from the index \<open>i\<close> on.\<close>

function data_loop ::
  "(nat \<Rightarrow> rng \<Rightarrow> GenPos \<times> rng) \<Rightarrow> real \<Rightarrow> nat \<Rightarrow> nat \<Rightarrow> ParticleData \<times> rng \<Rightarrow> ParticleData \<times> rng" where
  "data_loop generatePositions baseScale count i st =
     (if i < count
      then data_loop generatePositions baseScale count (i + 1)
             (data_body generatePositions baseScale i st)
      else st)"
  by pat_completeness auto
termination
  by (relation "measure (\<lambda>(gp, bs, count, i, st). count - i)") auto

definition useMemo_data ::
  "nat \<Rightarrow> (nat \<Rightarrow> rng \<Rightarrow> GenPos \<times> rng) \<Rightarrow> real \<Rightarrow> rng \<Rightarrow> ParticleData \<times> rng" where
  "useMemo_data count generatePositions baseScale g =
     data_loop generatePositions baseScale count 0 (alloc_data count, g)"

section \<open>MorphingSystem: the per-frame update\<close>

text \<open>What \<open>tempObj\<close> holds when its matrix is written into the instanced mesh.\<close>

record Object3D =
  obj_position :: Vector3
  obj_rotation :: Euler
  obj_scale :: Vector3

text \<open>
  The state a group keeps between frames: the morph factor (\<open>factor.current\<close>) and
  the instanced mesh (\<open>meshRef.current\<close>, absent until the mesh is mounted), one slot
  per instance.
\<close>

record MorphState =
  factor :: real
  mesh :: "Object3D list option"

definition factor_init :: "bool \<Rightarrow> real" where
  "factor_init isAssembled = (if isAssembled then 1 else 0)"

text \<open>The per-particle timing offset and its smoothstep easing.\<close>

definition particleT :: "real \<Rightarrow> real \<Rightarrow> real" where
  "particleT t speed = clamp (t * speed + (if t > 0.5 then 0.1 else - 0.1)) 0 1"

definition smoothT :: "real \<Rightarrow> real \<Rightarrow> real" where
  "smoothT t speed = (let p = particleT t speed in p * p * (3 - 2 * p))"

text \<open>
  \<open>tempVec3\<close> after \<open>tempVec3.set(...)\<close>, before the hover offset is added. The loop
  computes it for \<open>i < count\<close> only, where every index read is inside its array.
\<close>

definition base_position :: "ParticleData \<Rightarrow> real \<Rightarrow> nat \<Rightarrow> Vector3" where
  "base_position d t i =
     (let ix = i * 3;
          tx = treePositions d ! ix;
          ty = treePositions d ! (ix + 1);
          tz = treePositions d ! (ix + 2);
          sx = scatterPositions d ! ix;
          sy = scatterPositions d ! (ix + 1);
          sz = scatterPositions d ! (ix + 2);
          s = smoothT t (speeds d ! i)
      in \<lparr>vx = lerp sx tx s, vy = lerp sy ty s, vz = lerp sz tz s\<rparr>)"

text \<open>The body of the per-frame loop for particle \<open>i\<close>.\<close>

definition frame_particle ::
  "ParticleData \<Rightarrow> bool \<Rightarrow> real \<Rightarrow> real \<Rightarrow> real \<Rightarrow> nat \<Rightarrow> Object3D" where
  "frame_particle d randomizeRotation spinSpeed t time i =
     (let ix = i * 3;
          s = smoothT t (speeds d ! i);
          v0 = base_position d t i;
          hoverAmp = lerp 0.5 0.02 s;
          v1 = v0\<lparr>vy := vy v0 + sin (time + phases d ! i) * hoverAmp\<rparr>;
          rot =
            (if randomizeRotation
             then \<lparr>ex = time * 0.2 * spinSpeed + phases d ! i,
                   ey = time * 0.1 * spinSpeed + phases d ! i,
                   ez = time * 0.15 * spinSpeed + phases d ! i\<rparr>
             else
               (let rTx = treeRotations d ! ix;
                    rTy = treeRotations d ! (ix + 1);
                    rTz = treeRotations d ! (ix + 2);
                    scatterRot = time * 0.5 + phases d ! i
                in \<lparr>ex = lerp scatterRot rTx s, ey = lerp scatterRot rTy s,
                     ez = lerp scatterRot rTz s\<rparr>));
          scalePulse = 1 + sin (time * 2 + phases d ! i) * 0.05;
          k = scales d ! i * scalePulse
      in \<lparr>obj_position = v1, obj_rotation = rot, obj_scale = \<lparr>vx = k, vy = k, vz = k\<rparr>\<rparr>)"

function frame_loop ::
  "ParticleData \<Rightarrow> bool \<Rightarrow> real \<Rightarrow> nat \<Rightarrow> real \<Rightarrow> real \<Rightarrow> nat \<Rightarrow> Object3D list \<Rightarrow> Object3D list" where
  "frame_loop d randomizeRotation spinSpeed count t time i m =
     (if i < count
      then frame_loop d randomizeRotation spinSpeed count t time (i + 1)
             (m[i := frame_particle d randomizeRotation spinSpeed t time i])
      else m)"
  by pat_completeness auto
termination
  by (relation "measure (\<lambda>(d, rr, ss, count, t, time, i, m). count - i)") auto

text \<open>
  The callback given to \<open>useFrame\<close>: nothing happens while the mesh is absent;
  otherwise the factor moves towards its target and every instance is recomputed.
\<close>

definition useFrame ::
  "ParticleData \<Rightarrow> nat \<Rightarrow> bool \<Rightarrow> bool \<Rightarrow> real \<Rightarrow> real \<Rightarrow> real \<Rightarrow> MorphState \<Rightarrow> MorphState" where
  "useFrame d count isAssembled randomizeRotation spinSpeed time delta st =
     (case mesh st of
        None \<Rightarrow> st
      | Some m \<Rightarrow>
          (let target = (if isAssembled then 1 else 0);
               t = lerp (factor st) target (delta * 1.5)
           in \<lparr>factor = t,
                mesh = Some (frame_loop d randomizeRotation spinSpeed count t time 0 m)\<rparr>))"

section \<open>ChristmasTree: the position generators\<close>

definition generateFoliage :: "nat \<Rightarrow> rng \<Rightarrow> GenPos \<times> rng" where
  "generateFoliage i g =
     (let (u1, g1) = Math_random g;
          level = u1 powr 0.8;
          y = (1 - level) * TREE_HEIGHT - (TREE_HEIGHT / 2);
          radiusAtY = TREE_RADIUS * level;
          thickness = 0.05;
          (u2, g2) = Math_random g1;
          rNorm = (1 - thickness) + (u2 * thickness);
          r = radiusAtY * rNorm;
          (u3, g3) = Math_random g2;
          angle = u3 * pi * 2;
          treeV = \<lparr>vx = cos angle * r, vy = y, vz = sin angle * r\<rparr>;
          (u4, g4) = Math_random g3;
          scatterR = 10 + u4 * 5;
          (u5, g5) = Math_random g4;
          theta = u5 * pi * 2;
          (u6, g6) = Math_random g5;
          phi = arccos (2 * u6 - 1);
          scatterV = \<lparr>vx = scatterR * sin phi * cos theta,
                      vy = scatterR * sin phi * sin theta,
                      vz = scatterR * cos phi\<rparr>;
          (u7, g7) = Math_random g6
      in (\<lparr>tree = treeV, scatter = scatterV, scale = 0.5 + u7 * 0.5, rotation = None\<rparr>, g7))"

text \<open>
  \<open>getSpiralPos\<close> returns the tree position, the scatter position and the rotation.
  The index and the total (\<open>total'\<close> here) are whole numbers; the division is
  the real one (with a total of \<open>1\<close> the source divides by zero).
\<close>

definition getSpiralPos :: "nat \<Rightarrow> nat \<Rightarrow> real \<Rightarrow> rng \<Rightarrow> (Vector3 \<times> Vector3 \<times> Euler) \<times> rng" where
  "getSpiralPos i total' offsetAngle g =
     (let yNorm = 1 - (real i / (real total' - 1));
          yClamped = 0.1 + (yNorm * 0.85);
          y = yClamped * TREE_HEIGHT - (TREE_HEIGHT / 2);
          r = TREE_RADIUS * (1 - yClamped);
          rPush = r + 0.3;
          phi = pi * (3 - sqrt 5);
          theta = (phi * real i * 20) + offsetAngle;
          treeV = \<lparr>vx = cos theta * rPush, vy = y, vz = sin theta * rPush\<rparr>;
          rot = \<lparr>ex = 0, ey = - theta, ez = 0\<rparr>;
          (u1, g1) = Math_random g;
          (u2, g2) = Math_random g1;
          (u3, g3) = Math_random g2;
          scatterV = \<lparr>vx = (u1 - 0.5) * 15, vy = (u2 - 0.5) * 15, vz = (u3 - 0.5) * 15\<rparr>
      in ((treeV, scatterV, rot), g3))"

definition generateBaubles :: "nat \<Rightarrow> rng \<Rightarrow> GenPos \<times> rng" where
  "generateBaubles i g =
     (let ((treeV, scatterV, rot), g1) = getSpiralPos i BAUBLE_COUNT 0 g;
          (u, g2) = Math_random g1
      in (\<lparr>tree = treeV, scatter = scatterV, scale = 0.3 + u * 0.3, rotation = Some rot\<rparr>, g2))"

definition generateGifts :: "nat \<Rightarrow> rng \<Rightarrow> GenPos \<times> rng" where
  "generateGifts i g =
     (let ((treeV, scatterV, rot), g1) = getSpiralPos i GIFT_COUNT 2.5 g;
          (a, g2) = Math_random g1;
          rot1 = rot\<lparr>ex := ex rot + (a - 0.5) * 0.5\<rparr>;
          (b, g3) = Math_random g2;
          rot2 = rot1\<lparr>ez := ez rot1 + (b - 0.5) * 0.5\<rparr>;
          (u, g4) = Math_random g3
      in (\<lparr>tree = treeV, scatter = scatterV, scale = 0.6 + u * 0.3, rotation = Some rot2\<rparr>, g4))"

definition generateCookies :: "nat \<Rightarrow> rng \<Rightarrow> GenPos \<times> rng" where
  "generateCookies i g =
     (let ((treeV, scatterV, rot), g1) = getSpiralPos i COOKIE_COUNT 4.5 g;
          rot1 = rot\<lparr>ex := pi / 2\<rparr>;
          rot2 = rot1\<lparr>ez := 0\<rparr>;
          (u, g2) = Math_random g1
      in (\<lparr>tree = treeV, scatter = scatterV, scale = 0.5 + u * 0.2, rotation = Some rot2\<rparr>, g2))"

definition generateRibbon :: "nat \<Rightarrow> rng \<Rightarrow> GenPos \<times> rng" where
  "generateRibbon i g =
     (let t = real i / real RIBBON_PARTICLE_COUNT;
          loops = 6;
          y = (1 - t) * TREE_HEIGHT - (TREE_HEIGHT / 2);
          rBase = TREE_RADIUS * t;
          r = rBase + 0.4;
          angle = t * pi * 2 * loops;
          treeV = \<lparr>vx = cos angle * r, vy = y, vz = sin angle * r\<rparr>;
          (u1, g1) = Math_random g;
          scatterAngle = u1 * pi * 2;
          (u2, g2) = Math_random g1;
          scatterR = 8 + u2 * 2;
          (u3, g3) = Math_random g2;
          scatterV = \<lparr>vx = cos scatterAngle * scatterR, vy = (u3 - 0.5) * 5,
                      vz = sin scatterAngle * scatterR\<rparr>;
          (u4, g4) = Math_random g3
      in (\<lparr>tree = treeV, scatter = scatterV, scale = 0.15 + u4 * 0.1, rotation = None\<rparr>, g4))"

section \<open>ChristmasTree: the groups and the lights\<close>

datatype Geometry =
  TetrahedronGeometry real nat
  | BoxGeometry real real real
  | SphereGeometry real nat nat
  | CylinderGeometry real real real nat

datatype Material =
  FOLIAGE_MATERIAL | GOLD_MATERIAL | RUBY_MATERIAL | COPPER_MATERIAL | LIGHT_MATERIAL

text \<open>
  The props of one \<open>MorphingSystem\<close> element; \<open>baseScale\<close>, \<open>spinSpeed\<close> and
  \<open>randomizeRotation\<close> default to \<open>1\<close>, \<open>1\<close> and \<open>true\<close>.
\<close>

record MorphingSystemProps =
  prop_count :: nat
  prop_geometry :: Geometry
  prop_material :: Material
  prop_generatePositions :: "nat \<Rightarrow> rng \<Rightarrow> GenPos \<times> rng"
  prop_isAssembled :: bool
  prop_baseScale :: real
  prop_spinSpeed :: real
  prop_randomizeRotation :: bool

text \<open>The five instanced groups the component renders, in the order of the source.\<close>

definition ChristmasTree_groups :: "bool \<Rightarrow> MorphingSystemProps list" where
  "ChristmasTree_groups isAssembled =
     [\<lparr>prop_count = FOLIAGE_COUNT, prop_geometry = TetrahedronGeometry 1 0,
       prop_material = FOLIAGE_MATERIAL, prop_generatePositions = generateFoliage,
       prop_isAssembled = isAssembled, prop_baseScale = 0.3, prop_spinSpeed = 0.5,
       prop_randomizeRotation = True\<rparr>,
      \<lparr>prop_count = RIBBON_PARTICLE_COUNT, prop_geometry = BoxGeometry 0.8 0.8 0.8,
       prop_material = GOLD_MATERIAL, prop_generatePositions = generateRibbon,
       prop_isAssembled = isAssembled, prop_baseScale = 1, prop_spinSpeed = 3,
       prop_randomizeRotation = True\<rparr>,
      \<lparr>prop_count = BAUBLE_COUNT, prop_geometry = SphereGeometry 0.6 32 32,
       prop_material = GOLD_MATERIAL, prop_generatePositions = generateBaubles,
       prop_isAssembled = isAssembled, prop_baseScale = 1, prop_spinSpeed = 1,
       prop_randomizeRotation = False\<rparr>,
      \<lparr>prop_count = GIFT_COUNT, prop_geometry = BoxGeometry 0.8 0.8 0.8,
       prop_material = RUBY_MATERIAL, prop_generatePositions = generateGifts,
       prop_isAssembled = isAssembled, prop_baseScale = 1, prop_spinSpeed = 1,
       prop_randomizeRotation = False\<rparr>,
      \<lparr>prop_count = COOKIE_COUNT, prop_geometry = CylinderGeometry 0.6 0.6 0.2 6,
       prop_material = COPPER_MATERIAL, prop_generatePositions = generateCookies,
       prop_isAssembled = isAssembled, prop_baseScale = 1, prop_spinSpeed = 1,
       prop_randomizeRotation = False\<rparr>]"

record PointLight =
  color :: string
  intensity :: real
  distance :: real
  decay :: real

text \<open>The light inside the star topper and the light at the centre of the tree.\<close>

definition star_pointLight :: "bool \<Rightarrow> PointLight" where
  "star_pointLight lightsOn =
     \<lparr>color = ''#fffae5'', intensity = (if lightsOn then 3 else 0), distance = 15, decay = 2\<rparr>"

definition soul_pointLight :: "bool \<Rightarrow> bool \<Rightarrow> PointLight" where
  "soul_pointLight lightsOn isAssembled =
     \<lparr>color = ''#00ff88'', intensity = (if isAssembled \<and> lightsOn then 2 else 0),
      distance = 8, decay = 2\<rparr>"

definition ChristmasTree_pointLights :: "bool \<Rightarrow> bool \<Rightarrow> PointLight list" where
  "ChristmasTree_pointLights lightsOn isAssembled =
     [star_pointLight lightsOn, soul_pointLight lightsOn isAssembled]"

section \<open>Overlay: the spin button\<close>

text \<open>
  The click handler of the spin button: it calls the \<open>setRotationSpeed\<close> prop with
  \<open>0\<close> when the \<open>rotationSpeed\<close> prop is positive and with \<open>0.5\<close> otherwise.
\<close>

definition spin_onClick :: "(real \<Rightarrow> 's \<Rightarrow> 's) \<Rightarrow> real \<Rightarrow> 's \<Rightarrow> 's" where
  "spin_onClick setRotationSpeed rotationSpeed =
     setRotationSpeed (if rotationSpeed > 0 then 0 else 0.5)"

text \<open>
  Modelled from the spec: the parent component that owns the state and passes the
  props is not among the sources. Following the spec's control flow (user interaction,
  state change, props flow into the scene), the state holds the light state, the
  assembly state and the rotation speed, \<open>setRotationSpeed\<close> stores its argument, and
  the overlay receives the stored speed as its \<open>rotationSpeed\<close> prop.
\<close>

record AppState =
  app_lightsOn :: bool
  app_isAssembled :: bool
  app_rotationSpeed :: real

definition setRotationSpeed :: "real \<Rightarrow> AppState \<Rightarrow> AppState" where
  "setRotationSpeed val s = s\<lparr>app_rotationSpeed := val\<rparr>"

definition click_spin :: "AppState \<Rightarrow> AppState" where
  "click_spin s = spin_onClick setRotationSpeed (app_rotationSpeed s) s"

section \<open>Auxiliary predicates for the generation loop\<close>

text \<open>
  Two arrays of the same length that hold the same values in their first \<open>n\<close> slots.
\<close>

definition agree_upto :: "nat \<Rightarrow> real list \<Rightarrow> real list \<Rightarrow> bool" where
  "agree_upto n xs ys \<longleftrightarrow> length xs = length ys \<and> take n xs = take n ys"

text \<open>The six arrays have the lengths the allocation gives them for \<open>count\<close> particles.\<close>

definition has_lengths :: "nat \<Rightarrow> ParticleData \<Rightarrow> bool" where
  "has_lengths count d \<longleftrightarrow>
     length (treePositions d) = count * 3 \<and> length (scatterPositions d) = count * 3
     \<and> length (scales d) = count \<and> length (speeds d) = count
     \<and> length (phases d) = count \<and> length (treeRotations d) = count * 3"

text \<open>Two sets of arrays that hold the same values for the particles below \<open>i\<close>.\<close>

definition data_agree :: "nat \<Rightarrow> ParticleData \<Rightarrow> ParticleData \<Rightarrow> bool" where
  "data_agree i d d' \<longleftrightarrow>
     agree_upto (i * 3) (treePositions d) (treePositions d')
     \<and> agree_upto (i * 3) (scatterPositions d) (scatterPositions d')
     \<and> agree_upto i (scales d) (scales d')
     \<and> agree_upto i (speeds d) (speeds d')
     \<and> agree_upto i (phases d) (phases d')
     \<and> agree_upto (i * 3) (treeRotations d) (treeRotations d')"

declare data_loop.simps [simp del]
declare frame_loop.simps [simp del]

section \<open>The instanced groups\<close>

text \<open>
  C8: the five instanced groups (foliage 2200, ribbon 500, baubles 120, gifts 35,
  medallions 35) total exactly 2890 instances, a number at least 2000.
\<close>

theorem groups_total_instances:
  "map prop_count (ChristmasTree_groups isAssembled) = [2200, 500, 120, 35, 35]
   \<and> sum_list (map prop_count (ChristmasTree_groups isAssembled)) = 2890
   \<and> 2000 \<le> sum_list (map prop_count (ChristmasTree_groups isAssembled))"
  by (simp add: ChristmasTree_groups_def FOLIAGE_COUNT_def RIBBON_PARTICLE_COUNT_def
      BAUBLE_COUNT_def GIFT_COUNT_def COOKIE_COUNT_def)

section \<open>The spin button\<close>

text \<open>
  C5: clicking the spin button sets the rotation speed to 0 when the current speed is
  strictly positive and to 0.5 otherwise; from a speed of 0 or 0.5, two clicks restore
  the state.
\<close>

theorem spin_toggle:
  "app_rotationSpeed (click_spin s) = (if 0 < app_rotationSpeed s then 0 else 0.5)
   \<and> (app_rotationSpeed s \<in> {0, 0.5} \<longrightarrow> click_spin (click_spin s) = s)"
  by (auto simp: click_spin_def spin_onClick_def setRotationSpeed_def)

theorem spin_toggle_witness:
  "app_rotationSpeed \<lparr>app_lightsOn = True, app_isAssembled = True, app_rotationSpeed = 0.5\<rparr>
     \<in> {0, 0.5}
   \<and> app_rotationSpeed
        (click_spin \<lparr>app_lightsOn = True, app_isAssembled = True, app_rotationSpeed = 0.5\<rparr>) = 0
   \<and> click_spin
        (click_spin \<lparr>app_lightsOn = True, app_isAssembled = True, app_rotationSpeed = 0.5\<rparr>)
       = \<lparr>app_lightsOn = True, app_isAssembled = True, app_rotationSpeed = 0.5\<rparr>"
  using spin_toggle [of "\<lparr>app_lightsOn = True, app_isAssembled = True, app_rotationSpeed = 0.5\<rparr>"]
  by simp

section \<open>The point lights\<close>

text \<open>
  C4, as stated: for every combination of \<open>lightsOn\<close> and \<open>isAssembled\<close>, each point
  light has positive intensity exactly when \<open>lightsOn\<close> is true. With the lights on and
  the tree scattered, the light at the centre of the tree is one of the point lights and
  its intensity is not positive.
\<close>

theorem lights_lit_counterexample:
  "soul_pointLight True False \<in> set (ChristmasTree_pointLights True False)
   \<and> \<not> (0 < intensity (soul_pointLight True False) \<longleftrightarrow> True)"
  by (simp add: ChristmasTree_pointLights_def soul_pointLight_def)

text \<open>
  C4, amended: the component has two point lights; the star's light has positive
  intensity exactly when \<open>lightsOn\<close> is true, and the light at the centre of the tree
  exactly when \<open>lightsOn\<close> and \<open>isAssembled\<close> are both true.
\<close>

theorem lights_lit_amended:
  "ChristmasTree_pointLights lightsOn isAssembled
     = [star_pointLight lightsOn, soul_pointLight lightsOn isAssembled]
   \<and> (0 < intensity (star_pointLight lightsOn) \<longleftrightarrow> lightsOn)
   \<and> (0 < intensity (soul_pointLight lightsOn isAssembled) \<longleftrightarrow> lightsOn \<and> isAssembled)"
  by (auto simp: ChristmasTree_pointLights_def star_pointLight_def soul_pointLight_def)

section \<open>The morph factor\<close>

lemma lerp_bounds:
  assumes "0 \<le> a" "a \<le> 1" "0 \<le> x" "x \<le> 1" "0 \<le> y" "y \<le> 1"
  shows "0 \<le> lerp x y a" "lerp x y a \<le> 1"
proof -
  have "0 \<le> (1 - a) * x" "0 \<le> a * y" using assms by simp_all
  then show "0 \<le> lerp x y a" by (simp add: lerp_def)
  have "(1 - a) * x \<le> (1 - a) * 1" "a * y \<le> a * 1"
    using assms by (intro mult_left_mono; simp)+
  then show "lerp x y a \<le> 1" by (simp add: lerp_def)
qed

lemma lerp_dist: "lerp x y a - y = (1 - a) * (x - y)"
  by (simp add: lerp_def algebra_simps)

text \<open>
  C3: for every frame with \<open>delta \<ge> 0\<close> and \<open>delta * 1.5 \<le> 1\<close>, a factor in \<open>[0, 1]\<close>
  is still in \<open>[0, 1]\<close> after the frame's update, and its distance to the target (1 when
  assembled, 0 when scattered) does not increase.
\<close>

theorem factor_stays_in_unit_interval:
  assumes "0 \<le> delta" "delta * 1.5 \<le> 1" "0 \<le> factor st" "factor st \<le> 1"
  shows "0 \<le> factor (useFrame d count isAssembled rr ss time delta st)
         \<and> factor (useFrame d count isAssembled rr ss time delta st) \<le> 1
         \<and> \<bar>factor (useFrame d count isAssembled rr ss time delta st)
              - (if isAssembled then 1 else 0)\<bar>
             \<le> \<bar>factor st - (if isAssembled then 1 else 0)\<bar>"
proof (cases "mesh st")
  case None
  then show ?thesis using assms by (simp add: useFrame_def)
next
  case (Some m)
  define tg :: real where "tg = (if isAssembled then 1 else 0)"
  let ?a = "delta * 1.5"
  have a: "0 \<le> ?a" "?a \<le> 1" using assms by simp_all
  have tg: "0 \<le> tg" "tg \<le> 1" by (simp_all add: tg_def)
  have f: "factor (useFrame d count isAssembled rr ss time delta st) = lerp (factor st) tg ?a"
    using Some by (simp add: useFrame_def tg_def Let_def)
  have "\<bar>lerp (factor st) tg ?a - tg\<bar> = (1 - ?a) * \<bar>factor st - tg\<bar>"
    using a by (simp add: lerp_dist abs_mult)
  also have "\<dots> \<le> 1 * \<bar>factor st - tg\<bar>"
    using a by (intro mult_right_mono) simp_all
  finally have "\<bar>lerp (factor st) tg ?a - tg\<bar> \<le> \<bar>factor st - tg\<bar>" by simp
  with lerp_bounds [OF a assms(3,4) tg] f show ?thesis by (simp add: tg_def)
qed

theorem factor_stays_in_unit_interval_witness:
  "(0::real) \<le> 0.1 \<and> (0.1::real) * 1.5 \<le> 1
   \<and> 0 \<le> factor \<lparr>factor = 0, mesh = Some []\<rparr> \<and> factor \<lparr>factor = 0, mesh = Some []\<rparr> \<le> 1
   \<and> factor (useFrame (alloc_data 0) 0 True True 1 0 0.1 \<lparr>factor = 0, mesh = Some []\<rparr>) = 0.15
   \<and> \<bar>factor (useFrame (alloc_data 0) 0 True True 1 0 0.1 \<lparr>factor = 0, mesh = Some []\<rparr>)
        - (if True then 1 else 0)\<bar>
       \<le> \<bar>factor \<lparr>factor = 0, mesh = Some []\<rparr> - (if True then 1 else 0)\<bar>"
  using factor_stays_in_unit_interval
    [where delta = "0.1" and st = "\<lparr>factor = 0, mesh = Some []\<rparr>" and d = "alloc_data 0"
       and count = 0 and isAssembled = True and rr = True and ss = 1 and time = 0]
  by (simp add: useFrame_def lerp_def Let_def)

section \<open>The generated arrays\<close>

lemma has_lengths_alloc: "has_lengths count (alloc_data count)"
  by (simp add: has_lengths_def alloc_data_def Float32Array_def)

lemma has_lengths_body:
  "has_lengths count d \<Longrightarrow> has_lengths count (fst (data_body gp bs i (d, g)))"
  by (simp add: has_lengths_def data_body_def split_def Let_def)

lemma has_lengths_loop:
  "has_lengths count (fst st) \<Longrightarrow> has_lengths count (fst (data_loop gp bs count i st))"
proof (induction gp bs count i st rule: data_loop.induct)
  case (1 gp bs count i st)
  show ?case
  proof (cases "i < count")
    case True
    have "has_lengths count (fst (data_body gp bs i st))"
      using has_lengths_body [of count "fst st" gp bs i "snd st"] "1.prems" by simp
    with "1.IH" True show ?thesis
      by (simp add: data_loop.simps [of gp bs count i st])
  next
    case False
    with "1.prems" show ?thesis by (simp add: data_loop.simps [of gp bs count i st])
  qed
qed

lemma agree_upto_step:
  assumes "agree_upto n xs ys" "n < length xs"
  shows "agree_upto (Suc n) (xs[n := v]) (ys[n := v])"
proof -
  from assms have len: "length xs = length ys" and tk: "take n xs = take n ys"
    by (simp_all add: agree_upto_def)
  have "take (Suc n) (xs[n := v]) = take n xs @ [v]"
    using assms(2) by (simp add: take_Suc_conv_app_nth)
  moreover have "take (Suc n) (ys[n := v]) = take n ys @ [v]"
    using assms(2) len by (simp add: take_Suc_conv_app_nth)
  ultimately show ?thesis using len tk by (simp add: agree_upto_def)
qed

lemma agree_upto_step3:
  assumes "agree_upto (i * 3) xs ys" "i * 3 + 2 < length xs"
  shows "agree_upto (Suc i * 3) (xs[i * 3 := a, Suc (i * 3) := b, Suc (Suc (i * 3)) := c])
           (ys[i * 3 := a, Suc (i * 3) := b, Suc (Suc (i * 3)) := c])"
proof -
  have 1: "agree_upto (Suc (i * 3)) (xs[i * 3 := a]) (ys[i * 3 := a])"
    using assms(2) by (intro agree_upto_step [OF assms(1)]) simp
  have 2: "agree_upto (Suc (Suc (i * 3))) (xs[i * 3 := a, Suc (i * 3) := b])
             (ys[i * 3 := a, Suc (i * 3) := b])"
    using assms(2) by (intro agree_upto_step [OF 1]) simp
  have 3: "agree_upto (Suc (Suc (Suc (i * 3))))
             (xs[i * 3 := a, Suc (i * 3) := b, Suc (Suc (i * 3)) := c])
             (ys[i * 3 := a, Suc (i * 3) := b, Suc (Suc (i * 3)) := c])"
    using assms(2) by (intro agree_upto_step [OF 2]) simp
  have e: "Suc i * 3 = Suc (Suc (Suc (i * 3)))" by simp
  show ?thesis unfolding e by (rule 3)
qed

lemma agree_upto_full: "agree_upto n xs ys \<Longrightarrow> length xs = n \<Longrightarrow> xs = ys"
  by (simp add: agree_upto_def)

lemma data_agree_body:
  assumes "data_agree i d d'" "has_lengths count d" "i < count"
  shows "data_agree (Suc i) (fst (data_body gp bs i (d, g))) (fst (data_body gp bs i (d', g)))"
    and "snd (data_body gp bs i (d, g)) = snd (data_body gp bs i (d', g))"
proof -
  from assms(2,3) have l3: "i * 3 + 2 < length (treePositions d)"
    "i * 3 + 2 < length (scatterPositions d)" "i * 3 + 2 < length (treeRotations d)"
    and l1: "i < length (scales d)" "i < length (speeds d)" "i < length (phases d)"
    by (simp_all add: has_lengths_def)
  show "snd (data_body gp bs i (d, g)) = snd (data_body gp bs i (d', g))"
    by (simp add: data_body_def split_def Let_def)
  from assms(1) have ag: "agree_upto (i * 3) (treePositions d) (treePositions d')"
    "agree_upto (i * 3) (scatterPositions d) (scatterPositions d')"
    "agree_upto (i * 3) (treeRotations d) (treeRotations d')"
    "agree_upto i (scales d) (scales d')" "agree_upto i (speeds d) (speeds d')"
    "agree_upto i (phases d) (phases d')"
    by (simp_all add: data_agree_def)
  show "data_agree (Suc i) (fst (data_body gp bs i (d, g))) (fst (data_body gp bs i (d', g)))"
    unfolding data_agree_def
    by (simp add: data_body_def split_def Let_def del: mult_Suc)
       (intro conjI agree_upto_step3 agree_upto_step ag l1 l3)
qed

lemma data_loop_agree:
  assumes "data_agree i d d'" "has_lengths count d" "i \<le> count"
  shows "data_loop gp bs count i (d, g) = data_loop gp bs count i (d', g)"
  using assms
proof (induction "count - i" arbitrary: i d d' g)
  case 0
  then have i: "i = count" by simp
  have "d = d'"
    using "0.prems"(1,2) unfolding i data_agree_def has_lengths_def
    by (intro ParticleData.equality) (auto dest: agree_upto_full)
  then show ?case by simp
next
  case (Suc k)
  then have lt: "i < count" by simp
  obtain e h where b: "data_body gp bs i (d, g) = (e, h)" by (cases "data_body gp bs i (d, g)")
  obtain e' h' where b': "data_body gp bs i (d', g) = (e', h')" by (cases "data_body gp bs i (d', g)")
  from data_agree_body [OF Suc.prems(1,2) lt, of gp bs g] b b'
  have ag: "data_agree (Suc i) e e'" and hh: "h = h'" by simp_all
  have hl: "has_lengths count e"
    using has_lengths_body [OF Suc.prems(2), of gp bs i g] b by simp
  have "data_loop gp bs count (Suc i) (e, h) = data_loop gp bs count (Suc i) (e', h)"
    using Suc.hyps(2) lt by (intro Suc.hyps(1) ag hl) simp_all
  then show ?case
    using lt b b' hh
    by (simp add: data_loop.simps [of gp bs count i "(d, g)"]
        data_loop.simps [of gp bs count i "(d', g)"])
qed

lemma data_agree_0: "has_lengths count d \<Longrightarrow> has_lengths count d' \<Longrightarrow> data_agree 0 d d'"
  by (simp add: data_agree_def agree_upto_def has_lengths_def)

text \<open>
  C6: for every particle count, \<open>scales\<close>, \<open>speeds\<close> and \<open>phases\<close> have length
  \<open>count\<close> and \<open>treePositions\<close>, \<open>scatterPositions\<close> and \<open>treeRotations\<close> have length
  \<open>3 * count\<close>; and the generation loop writes every slot of each array: started on
  arrays of these lengths with any contents whatever, it ends with the same arrays as
  when started on the freshly allocated ones, so no slot keeps its initial value.
\<close>

theorem data_arrays_lengths:
  "length (treePositions (fst (useMemo_data count gp bs g))) = 3 * count
   \<and> length (scatterPositions (fst (useMemo_data count gp bs g))) = 3 * count
   \<and> length (treeRotations (fst (useMemo_data count gp bs g))) = 3 * count
   \<and> length (scales (fst (useMemo_data count gp bs g))) = count
   \<and> length (speeds (fst (useMemo_data count gp bs g))) = count
   \<and> length (phases (fst (useMemo_data count gp bs g))) = count
   \<and> (length (treePositions d0) = 3 * count \<and> length (scatterPositions d0) = 3 * count
      \<and> length (treeRotations d0) = 3 * count \<and> length (scales d0) = count
      \<and> length (speeds d0) = count \<and> length (phases d0) = count
      \<longrightarrow> data_loop gp bs count 0 (d0, g) = useMemo_data count gp bs g)"
proof -
  have "has_lengths count (fst (useMemo_data count gp bs g))"
    unfolding useMemo_data_def by (rule has_lengths_loop) (simp add: has_lengths_alloc)
  then have A: "length (treePositions (fst (useMemo_data count gp bs g))) = 3 * count
   \<and> length (scatterPositions (fst (useMemo_data count gp bs g))) = 3 * count
   \<and> length (treeRotations (fst (useMemo_data count gp bs g))) = 3 * count
   \<and> length (scales (fst (useMemo_data count gp bs g))) = count
   \<and> length (speeds (fst (useMemo_data count gp bs g))) = count
   \<and> length (phases (fst (useMemo_data count gp bs g))) = count"
    by (simp add: has_lengths_def mult.commute)
  have B: "data_loop gp bs count 0 (d0, g) = useMemo_data count gp bs g"
    if "has_lengths count d0"
    unfolding useMemo_data_def
    by (rule data_loop_agree [OF data_agree_0 [OF that has_lengths_alloc] that]) simp
  show ?thesis using A B by (simp add: has_lengths_def mult.commute)
qed

theorem data_arrays_lengths_witness:
  "length (treePositions \<lparr>treePositions = [7, 7, 7], scatterPositions = [7, 7, 7], scales = [7],
       speeds = [7], phases = [7], treeRotations = [7, 7, 7]\<rparr>) = 3 * 1
   \<and> length (scatterPositions \<lparr>treePositions = [7, 7, 7], scatterPositions = [7, 7, 7], scales = [7],
       speeds = [7], phases = [7], treeRotations = [7, 7, 7]\<rparr>) = 3 * 1
   \<and> length (treeRotations \<lparr>treePositions = [7, 7, 7], scatterPositions = [7, 7, 7], scales = [7],
       speeds = [7], phases = [7], treeRotations = [7, 7, 7]\<rparr>) = 3 * 1
   \<and> length (scales \<lparr>treePositions = [7, 7, 7], scatterPositions = [7, 7, 7], scales = [7],
       speeds = [7], phases = [7], treeRotations = [7, 7, 7]\<rparr>) = 1
   \<and> length (speeds \<lparr>treePositions = [7, 7, 7], scatterPositions = [7, 7, 7], scales = [7],
       speeds = [7], phases = [7], treeRotations = [7, 7, 7]\<rparr>) = 1
   \<and> length (phases \<lparr>treePositions = [7, 7, 7], scatterPositions = [7, 7, 7], scales = [7],
       speeds = [7], phases = [7], treeRotations = [7, 7, 7]\<rparr>) = 1
   \<and> length (treePositions (fst (useMemo_data 1 generateFoliage 0.3 (\<lambda>_. 0)))) = 3 * 1
   \<and> length (speeds (fst (useMemo_data 1 generateFoliage 0.3 (\<lambda>_. 0)))) = 1
   \<and> data_loop generateFoliage 0.3 1 0
        (\<lparr>treePositions = [7, 7, 7], scatterPositions = [7, 7, 7], scales = [7],
       speeds = [7], phases = [7], treeRotations = [7, 7, 7]\<rparr>, \<lambda>_. 0)
       = useMemo_data 1 generateFoliage 0.3 (\<lambda>_. 0)"
  using data_arrays_lengths
    [of 1 generateFoliage "0.3" "\<lambda>_. 0"
        "\<lparr>treePositions = [7, 7, 7], scatterPositions = [7, 7, 7], scales = [7],
       speeds = [7], phases = [7], treeRotations = [7, 7, 7]\<rparr>"]
  by simp

section \<open>The two ends of the morph\<close>

lemma foliage_example_data:
  "fst (useMemo_data 1 generateFoliage 0.3 (\<lambda>_. 0)) =
     \<lparr>treePositions = [0, 4.75, 0], scatterPositions = [0, 0, - 10], scales = [0.15],
      speeds = [0.5], phases = [0], treeRotations = [0, 0, 0]\<rparr>"
  by (simp add: useMemo_data_def data_loop.simps data_body_def generateFoliage_def
      Math_random_def pick_rotation_def alloc_data_def Float32Array_def TREE_HEIGHT_def
      TREE_RADIUS_def numeral_3_eq_3)

text \<open>
  C1 says that at a morph factor of 1 the base position of every particle is its stored
  tree position, for every speed in \<open>[0.5, 1]\<close>. The code at a concrete input: the
  foliage generator run for one particle with every random draw equal to 0 stores the
  tree position \<open>(0, 4.75, 0)\<close> and the speed \<open>0.5\<close>; at factor 1 the base position
  of that particle is \<open>(0, 3.078, -3.52)\<close>.
\<close>

theorem assembled_base_position_short_of_tree:
  "treePositions (fst (useMemo_data 1 generateFoliage 0.3 (\<lambda>_. 0))) = [0, 4.75, 0]
   \<and> speeds (fst (useMemo_data 1 generateFoliage 0.3 (\<lambda>_. 0))) = [0.5]
   \<and> base_position (fst (useMemo_data 1 generateFoliage 0.3 (\<lambda>_. 0))) 1 0
       = \<lparr>vx = 0, vy = 3.078, vz = - 3.52\<rparr>"
  unfolding foliage_example_data
  by (simp add: base_position_def smoothT_def particleT_def clamp_def lerp_def)

lemma factor_stays_assembled:
  "factor (useFrame d count True rr ss time delta \<lparr>factor = factor_init True, mesh = Some m\<rparr>) = 1"
  by (simp add: useFrame_def factor_init_def lerp_def algebra_simps)

lemma smoothT_full: "0.9 \<le> speed \<Longrightarrow> smoothT 1 speed = 1"
  by (simp add: smoothT_def particleT_def clamp_def)

lemma smoothT_zero: "smoothT 0 speed = 0"
  by (simp add: smoothT_def particleT_def clamp_def)

text \<open>
  C2: at a morph factor of 0 the base position of every particle, before the hover
  offset is added, is exactly its stored scatter position, whatever its speed.
\<close>

theorem scattered_base_position:
  "base_position d 0 i =
     \<lparr>vx = scatterPositions d ! (i * 3), vy = scatterPositions d ! (i * 3 + 1),
      vz = scatterPositions d ! (i * 3 + 2)\<rparr>"
  by (simp add: base_position_def smoothT_zero lerp_def Let_def)

section \<open>The eased per-particle parameter\<close>

lemma smoothstep_range:
  fixes p :: real
  assumes "0 \<le> p" "p \<le> 1"
  shows "0 \<le> p * p * (3 - 2 * p)" "p * p * (3 - 2 * p) \<le> 1"
proof -
  show "0 \<le> p * p * (3 - 2 * p)" using assms by simp
  have "1 - p * p * (3 - 2 * p) = (1 - p) * (1 - p) * (1 + 2 * p)"
    by (simp add: algebra_simps)
  moreover have "0 \<le> (1 - p) * (1 - p) * (1 + 2 * p)" using assms by simp
  ultimately show "p * p * (3 - 2 * p) \<le> 1" by simp
qed

lemma smoothstep_mono:
  fixes p q :: real
  assumes "0 \<le> p" "p \<le> q" "q \<le> 1"
  shows "p * p * (3 - 2 * p) \<le> q * q * (3 - 2 * q)"
proof -
  have "q * q * (3 - 2 * q) - p * p * (3 - 2 * p)
          = (q - p) * (2 * (q * (1 - q)) + 2 * (p * (1 - p)) + q * (1 - p) + p * (1 - q))"
    by (simp add: algebra_simps)
  moreover have "0 \<le> (q - p) * (2 * (q * (1 - q)) + 2 * (p * (1 - p)) + q * (1 - p) + p * (1 - q))"
    using assms by (intro mult_nonneg_nonneg add_nonneg_nonneg) simp_all
  ultimately show ?thesis by simp
qed

lemma particleT_range: "0 \<le> particleT t speed" "particleT t speed \<le> 1"
  by (simp_all add: particleT_def clamp_def)

lemma clamp_mono: "v \<le> w \<Longrightarrow> clamp v 0 1 \<le> clamp w 0 1"
  by (simp add: clamp_def max_def min_def)

lemma particleT_mono:
  assumes "0 \<le> speed" "t1 \<le> t2" "t2 \<le> 0.5 \<or> 0.5 < t1"
  shows "particleT t1 speed \<le> particleT t2 speed"
proof -
  have "t1 * speed \<le> t2 * speed" using assms(2,1) by (rule mult_right_mono)
  moreover have "(t1 > 0.5) = (t2 > 0.5)" using assms(2,3) by auto
  ultimately show ?thesis unfolding particleT_def by (intro clamp_mono) simp
qed

text \<open>
  C9: the eased parameter \<open>smoothT = p * p * (3 - 2 * p)\<close>, with \<open>p\<close> the clamped
  per-particle parameter, lies in \<open>[0, 1]\<close> for every factor and speed; and for a fixed
  speed in \<open>[0.5, 1]\<close> it is monotone non-decreasing in the factor on \<open>[0, 0.5]\<close> and on
  \<open>(0.5, 1]\<close>.
\<close>

theorem smoothT_range_and_monotone:
  "0 \<le> smoothT t speed \<and> smoothT t speed \<le> 1
   \<and> (0.5 \<le> speed \<and> speed \<le> 1 \<and> 0 \<le> t1 \<and> t1 \<le> t2 \<and> t2 \<le> 1
        \<and> (t2 \<le> 0.5 \<or> 0.5 < t1)
      \<longrightarrow> smoothT t1 speed \<le> smoothT t2 speed)"
proof (intro conjI impI)
  show "0 \<le> smoothT t speed" "smoothT t speed \<le> 1"
    unfolding smoothT_def Let_def by (intro smoothstep_range particleT_range)+
next
  assume h: "0.5 \<le> speed \<and> speed \<le> 1 \<and> 0 \<le> t1 \<and> t1 \<le> t2 \<and> t2 \<le> 1
        \<and> (t2 \<le> 0.5 \<or> 0.5 < t1)"
  then have "particleT t1 speed \<le> particleT t2 speed"
    by (intro particleT_mono) simp_all
  then show "smoothT t1 speed \<le> smoothT t2 speed"
    unfolding smoothT_def Let_def by (intro smoothstep_mono particleT_range)
qed

theorem smoothT_range_and_monotone_witness:
  "(0.5::real) \<le> 0.75 \<and> (0.75::real) \<le> 1 \<and> (0::real) \<le> 0.6 \<and> (0.6::real) \<le> 0.8
   \<and> (0.8::real) \<le> 1 \<and> ((0.8::real) \<le> 0.5 \<or> (0.5::real) < 0.6)
   \<and> smoothT 0.6 0.75 \<le> smoothT 0.8 0.75
   \<and> smoothT 0.6 0.75 = 0.55 * 0.55 * 1.9 \<and> smoothT 0.8 0.75 = 0.7 * 0.7 * 1.6"
  using smoothT_range_and_monotone [of "0.6" "0.75" "0.6" "0.8"]
  by (simp add: smoothT_def particleT_def clamp_def)

section \<open>The foliage shell\<close>

lemma horizontal_distance:
  fixes r :: real
  assumes "0 \<le> r"
  shows "sqrt ((cos a * r)\<^sup>2 + (sin a * r)\<^sup>2) = r"
proof -
  have "(cos a * r)\<^sup>2 + (sin a * r)\<^sup>2 = ((cos a)\<^sup>2 + (sin a)\<^sup>2) * r\<^sup>2"
    by (simp only: power_mult_distrib distrib_right)
  also have "\<dots> = r\<^sup>2" by simp
  finally show ?thesis using assms by simp
qed

lemma generateFoliage_tree:
  "tree (fst (generateFoliage i g)) =
     \<lparr>vx = cos (g 2 * pi * 2) * (TREE_RADIUS * (g 0 powr 0.8) * (0.95 + g 1 * 0.05)),
      vy = (1 - g 0 powr 0.8) * TREE_HEIGHT - TREE_HEIGHT / 2,
      vz = sin (g 2 * pi * 2) * (TREE_RADIUS * (g 0 powr 0.8) * (0.95 + g 1 * 0.05))\<rparr>"
  by (simp add: generateFoliage_def Math_random_def split_def Let_def numeral_2_eq_2)

lemma level_range:
  fixes u :: real
  assumes "0 \<le> u" "u < 1"
  shows "0 \<le> u powr 0.8" "u powr 0.8 \<le> 1"
  using assms by (simp_all add: powr_le1)

lemma powr_example: "(1 / 32 :: real) powr (4 / 5) = 1 / 16"
proof -
  have e: "(1 / 32 :: real) = (1 / 2) powr 5" by (simp add: power_divide)
  have "(1 / 32 :: real) powr (4 / 5) = ((1 / 2) powr 5) powr (4 / 5)"
    by (subst e) (rule refl)
  also have "\<dots> = (1 / 2) powr 4" unfolding powr_powr by simp
  also have "\<dots> = 1 / 16" by (simp add: power_divide)
  finally show ?thesis .
qed

text \<open>
  C7: whatever values in \<open>[0, 1)\<close> the random draws take, the tree position generated
  for a foliage particle has its y coordinate in \<open>[-TREE_HEIGHT/2, TREE_HEIGHT/2]\<close>, that
  is \<open>[-4.75, 4.75]\<close>, and its horizontal distance from the axis is between 0.95 and
  1.0 times the cone radius at that height,
  \<open>TREE_RADIUS * (TREE_HEIGHT/2 - y) / TREE_HEIGHT\<close>.
\<close>

theorem foliage_on_cone_shell:
  assumes "\<forall>n. 0 \<le> g n \<and> g n < 1"
  shows "- (TREE_HEIGHT / 2) \<le> vy (tree (fst (generateFoliage i g)))
         \<and> vy (tree (fst (generateFoliage i g))) \<le> TREE_HEIGHT / 2
         \<and> - 4.75 \<le> vy (tree (fst (generateFoliage i g)))
         \<and> vy (tree (fst (generateFoliage i g))) \<le> 4.75
         \<and> 0.95 * (TREE_RADIUS * (TREE_HEIGHT / 2 - vy (tree (fst (generateFoliage i g))))
                     / TREE_HEIGHT)
             \<le> sqrt ((vx (tree (fst (generateFoliage i g))))\<^sup>2
                       + (vz (tree (fst (generateFoliage i g))))\<^sup>2)
         \<and> sqrt ((vx (tree (fst (generateFoliage i g))))\<^sup>2
                  + (vz (tree (fst (generateFoliage i g))))\<^sup>2)
             \<le> 1.0 * (TREE_RADIUS * (TREE_HEIGHT / 2 - vy (tree (fst (generateFoliage i g))))
                        / TREE_HEIGHT)"
proof -
  define level where "level = g 0 powr 0.8"
  define rNorm where "rNorm = 0.95 + g 1 * 0.05"
  define r where "r = TREE_RADIUS * level * rNorm"
  have lv: "0 \<le> level" "level \<le> 1"
    using assms level_range [of "g 0"] by (simp_all add: level_def)
  have rn: "0.95 \<le> rNorm" "rNorm \<le> 1"
    using assms [rule_format, of 1] by (simp_all add: rNorm_def)
  have r0: "0 \<le> r" using lv rn by (simp add: r_def TREE_RADIUS_def)
  have y: "vy (tree (fst (generateFoliage i g))) = (1 - level) * TREE_HEIGHT - TREE_HEIGHT / 2"
    by (simp add: generateFoliage_tree level_def)
  have d: "sqrt ((vx (tree (fst (generateFoliage i g))))\<^sup>2
                  + (vz (tree (fst (generateFoliage i g))))\<^sup>2) = r"
    unfolding generateFoliage_tree using horizontal_distance [OF r0, of "g 2 * pi * 2"]
    by (simp add: r_def level_def rNorm_def)
  have cone: "TREE_RADIUS * (TREE_HEIGHT / 2 - vy (tree (fst (generateFoliage i g))))
                / TREE_HEIGHT = TREE_RADIUS * level"
  proof -
    have "TREE_HEIGHT / 2 - ((1 - level) * TREE_HEIGHT - TREE_HEIGHT / 2) = level * TREE_HEIGHT"
      by (simp add: algebra_simps)
    then show ?thesis unfolding y by (simp add: TREE_HEIGHT_def)
  qed
  have lo: "0.95 * (TREE_RADIUS * level) \<le> r"
  proof -
    have "(TREE_RADIUS * level) * 0.95 \<le> (TREE_RADIUS * level) * rNorm"
      using lv rn by (intro mult_left_mono) (simp_all add: TREE_RADIUS_def)
    then show ?thesis by (simp add: r_def mult.commute)
  qed
  have hi: "r \<le> 1.0 * (TREE_RADIUS * level)"
  proof -
    have "(TREE_RADIUS * level) * rNorm \<le> (TREE_RADIUS * level) * 1"
      using lv rn by (intro mult_left_mono) (simp_all add: TREE_RADIUS_def)
    then show ?thesis by (simp add: r_def)
  qed
  have yr: "- (TREE_HEIGHT / 2) \<le> (1 - level) * TREE_HEIGHT - TREE_HEIGHT / 2"
    "(1 - level) * TREE_HEIGHT - TREE_HEIGHT / 2 \<le> TREE_HEIGHT / 2"
    using lv by (simp_all add: TREE_HEIGHT_def)
  have yn: "- 4.75 \<le> (1 - level) * TREE_HEIGHT - TREE_HEIGHT / 2"
    "(1 - level) * TREE_HEIGHT - TREE_HEIGHT / 2 \<le> 4.75"
    using lv by (simp_all add: TREE_HEIGHT_def)
  show ?thesis unfolding d cone unfolding y using lo hi yr yn by simp
qed

theorem foliage_on_cone_shell_witness:
  "(\<forall>n::nat. (0::real) \<le> (\<lambda>_. 1 / 32) n \<and> (\<lambda>_. 1 / 32 :: real) n < 1)
   \<and> vy (tree (fst (generateFoliage 0 (\<lambda>_. 1 / 32)))) = 4.15625
   \<and> - 4.75 \<le> vy (tree (fst (generateFoliage 0 (\<lambda>_. 1 / 32))))
   \<and> vy (tree (fst (generateFoliage 0 (\<lambda>_. 1 / 32)))) \<le> 4.75
   \<and> 0.95 * (TREE_RADIUS * (TREE_HEIGHT / 2 - vy (tree (fst (generateFoliage 0 (\<lambda>_. 1 / 32)))))
               / TREE_HEIGHT)
       \<le> sqrt ((vx (tree (fst (generateFoliage 0 (\<lambda>_. 1 / 32)))))\<^sup>2
                 + (vz (tree (fst (generateFoliage 0 (\<lambda>_. 1 / 32)))))\<^sup>2)
   \<and> sqrt ((vx (tree (fst (generateFoliage 0 (\<lambda>_. 1 / 32)))))\<^sup>2
            + (vz (tree (fst (generateFoliage 0 (\<lambda>_. 1 / 32)))))\<^sup>2)
       \<le> 1.0 * (TREE_RADIUS * (TREE_HEIGHT / 2 - vy (tree (fst (generateFoliage 0 (\<lambda>_. 1 / 32)))))
                  / TREE_HEIGHT)"
proof -
  have h: "\<forall>n::nat. (0::real) \<le> (\<lambda>_. 1 / 32) n \<and> (\<lambda>_. 1 / 32 :: real) n < 1" by simp
  have y: "vy (tree (fst (generateFoliage 0 (\<lambda>_. 1 / 32)))) = 4.15625"
    by (simp add: generateFoliage_tree powr_example TREE_HEIGHT_def)
  show ?thesis using h y foliage_on_cone_shell [OF h, of 0] by simp
qed

section \<open>The ornament spiral\<close>

lemma getSpiralPos_result:
  "fst (getSpiralPos i total' offsetAngle g) =
     (\<lparr>vx = cos (pi * (3 - sqrt 5) * real i * 20 + offsetAngle)
              * (TREE_RADIUS * (1 - (0.1 + (1 - real i / (real total' - 1)) * 0.85)) + 0.3),
       vy = (0.1 + (1 - real i / (real total' - 1)) * 0.85) * TREE_HEIGHT - TREE_HEIGHT / 2,
       vz = sin (pi * (3 - sqrt 5) * real i * 20 + offsetAngle)
              * (TREE_RADIUS * (1 - (0.1 + (1 - real i / (real total' - 1)) * 0.85)) + 0.3)\<rparr>,
      \<lparr>vx = (g 0 - 0.5) * 15, vy = (g 1 - 0.5) * 15, vz = (g 2 - 0.5) * 15\<rparr>,
      \<lparr>ex = 0, ey = - (pi * (3 - sqrt 5) * real i * 20 + offsetAngle), ez = 0\<rparr>)"
  by (simp add: getSpiralPos_def Math_random_def split_def Let_def numeral_2_eq_2)

lemma yNorm_range:
  assumes "i < total'" "2 \<le> total'"
  shows "0 \<le> 1 - real i / (real total' - 1)" "1 - real i / (real total' - 1) \<le> 1"
proof -
  have p: "0 < real total' - 1" using assms(2) by simp
  have "real i \<le> real total' - 1" using assms(1) by linarith
  then have "real i / (real total' - 1) \<le> 1" using p by (simp add: divide_le_eq)
  then show "0 \<le> 1 - real i / (real total' - 1)" by simp
  have "0 \<le> real i / (real total' - 1)" using p by simp
  then show "1 - real i / (real total' - 1) \<le> 1" by simp
qed

text \<open>
  C10: for an ornament index \<open>i\<close> below the total and a total of at least 2, the tree
  position returned by \<open>getSpiralPos\<close> has its y coordinate in the band
  \<open>[0.1 * TREE_HEIGHT - TREE_HEIGHT/2, 0.95 * TREE_HEIGHT - TREE_HEIGHT/2]\<close>, its
  horizontal distance from the axis is \<open>TREE_RADIUS * (1 - yClamped) + 0.3\<close>, and the
  returned rotation is \<open>(0, -theta, 0)\<close>.
\<close>

theorem spiral_position:
  assumes "i < total'" "2 \<le> total'"
  shows "0.1 * TREE_HEIGHT - TREE_HEIGHT / 2 \<le> vy (fst (fst (getSpiralPos i total' offsetAngle g)))
         \<and> vy (fst (fst (getSpiralPos i total' offsetAngle g)))
             \<le> 0.95 * TREE_HEIGHT - TREE_HEIGHT / 2
         \<and> sqrt ((vx (fst (fst (getSpiralPos i total' offsetAngle g))))\<^sup>2
                  + (vz (fst (fst (getSpiralPos i total' offsetAngle g))))\<^sup>2)
             = TREE_RADIUS * (1 - (0.1 + (1 - real i / (real total' - 1)) * 0.85)) + 0.3
         \<and> snd (snd (fst (getSpiralPos i total' offsetAngle g)))
             = \<lparr>ex = 0, ey = - (pi * (3 - sqrt 5) * real i * 20 + offsetAngle), ez = 0\<rparr>"
proof -
  define yNorm where "yNorm = 1 - real i / (real total' - 1)"
  define rPush where "rPush = TREE_RADIUS * (1 - (0.1 + yNorm * 0.85)) + 0.3"
  have yn: "0 \<le> yNorm" "yNorm \<le> 1"
    using yNorm_range [OF assms] by (simp_all add: yNorm_def)
  have rp: "0 \<le> rPush" using yn by (simp add: rPush_def TREE_RADIUS_def)
  have y: "vy (fst (fst (getSpiralPos i total' offsetAngle g)))
             = (0.1 + yNorm * 0.85) * TREE_HEIGHT - TREE_HEIGHT / 2"
    by (simp add: getSpiralPos_result yNorm_def)
  have d: "sqrt ((vx (fst (fst (getSpiralPos i total' offsetAngle g))))\<^sup>2
                  + (vz (fst (fst (getSpiralPos i total' offsetAngle g))))\<^sup>2) = rPush"
    unfolding getSpiralPos_result
    using horizontal_distance [OF rp, of "pi * (3 - sqrt 5) * real i * 20 + offsetAngle"]
    by (simp add: rPush_def yNorm_def)
  have r: "snd (snd (fst (getSpiralPos i total' offsetAngle g)))
             = \<lparr>ex = 0, ey = - (pi * (3 - sqrt 5) * real i * 20 + offsetAngle), ez = 0\<rparr>"
    by (simp add: getSpiralPos_result)
  have b: "0.1 * TREE_HEIGHT - TREE_HEIGHT / 2 \<le> (0.1 + yNorm * 0.85) * TREE_HEIGHT - TREE_HEIGHT / 2"
    "(0.1 + yNorm * 0.85) * TREE_HEIGHT - TREE_HEIGHT / 2 \<le> 0.95 * TREE_HEIGHT - TREE_HEIGHT / 2"
    using yn by (simp_all add: TREE_HEIGHT_def field_simps)
  show ?thesis unfolding d r y using b by (simp add: rPush_def yNorm_def)
qed

theorem spiral_position_witness:
  "(1::nat) < 3 \<and> (2::nat) \<le> 3
   \<and> vy (fst (fst (getSpiralPos 1 3 0 (\<lambda>_. 0)))) = 0.525 * TREE_HEIGHT - TREE_HEIGHT / 2
   \<and> 0.1 * TREE_HEIGHT - TREE_HEIGHT / 2 \<le> vy (fst (fst (getSpiralPos 1 3 0 (\<lambda>_. 0))))
   \<and> vy (fst (fst (getSpiralPos 1 3 0 (\<lambda>_. 0)))) \<le> 0.95 * TREE_HEIGHT - TREE_HEIGHT / 2
   \<and> sqrt ((vx (fst (fst (getSpiralPos 1 3 0 (\<lambda>_. 0)))))\<^sup>2
            + (vz (fst (fst (getSpiralPos 1 3 0 (\<lambda>_. 0)))))\<^sup>2) = 2.105
   \<and> snd (snd (fst (getSpiralPos 1 3 0 (\<lambda>_. 0))))
       = \<lparr>ex = 0, ey = - (pi * (3 - sqrt 5) * 20), ez = 0\<rparr>"
  using spiral_position [of 1 3 0 "\<lambda>_. 0"]
  by (simp add: getSpiralPos_result TREE_RADIUS_def)

end
